theory Spec2Isabelle
  imports
    Complex_Main
    "HOL-Library.Sublist"
    "HOL-Library.Multiset"
    "HOL-Library.List_Lexorder"
    "HOL-Library.Char_ord"
begin

section \<open>Data model (src/schemas/index.ts)\<close>

text \<open>
  The zod enums become datatypes and the zod objects become records.  Record fields share
  one name space in HOL, so every field carries a short prefix naming its record
  (\<open>d_\<close> dog, \<open>a_\<close> adoption application, \<open>h_\<close> health record, \<open>t_\<close> training record);
  after the prefix the source's field name is kept.  An optional field is an \<open>option\<close>
  (\<open>None\<close> is JavaScript's \<open>undefined\<close>).  A JavaScript number that the schema declares
  \<open>int()\<close> is an \<open>int\<close>; any other number is a \<open>rat\<close>: the handlers only compare, add
  and divide numbers, and comparison of finite doubles is comparison of the rationals they
  denote.  Strings are \<open>char list\<close>.

  Every \<open>Create...Schema\<close> is the entity schema with \<open>id\<close>, \<open>createdAt\<close> and \<open>updatedAt\<close>
  omitted.  The model declares the creation payload first and the stored entity as its
  extension, so that the spread \<open>{ id, ...data, ...timestamps }\<close> of the create handlers is
  the record extension of the payload.
\<close>

datatype gender = Male | Female

datatype dogSize = Small | Medium | Large | ExtraLarge

datatype applicationStatus = Pending | Approved | Rejected | Withdrawn

datatype housingType = Apartment | House | Condo | Farm | OtherHousing

datatype experience = NoExperience | SomeExperience | Experienced | VeryExperienced

datatype healthType = Vaccination | Checkup | Treatment | Surgery | Emergency | Dental | Grooming

datatype trainingType =
  BasicObedience | AdvancedObedience | Agility | Therapy | Service | Behavioral | Socialization

datatype trainingStatus = InProgress | Completed | Discontinued

datatype progress = Poor | Fair | Good | Excellent

record dogData =
  d_name :: string
  d_breed :: string
  d_age :: int
  d_weight :: rat
  d_gender :: gender
  d_color :: string
  d_size :: dogSize
  d_temperament :: "string list"
  d_isNeutered :: bool
  d_microchipId :: "string option"
  d_photos :: "string list"
  d_description :: string

record dog = dogData +
  d_id :: string
  d_createdAt :: string
  d_updatedAt :: string

record address =
  street :: string
  city :: string
  state :: string
  zipCode :: string

record adoptionApplicationData =
  a_dogId :: string
  a_applicantName :: string
  a_applicantEmail :: string
  a_applicantPhone :: string
  a_address :: address
  a_housingType :: housingType
  a_hasYard :: bool
  a_hasOtherPets :: bool
  a_otherPetsDetails :: "string option"
  a_experience :: experience
  a_workSchedule :: string
  a_reason :: string

record adoptionApplication = adoptionApplicationData +
  a_id :: string
  a_status :: applicationStatus
  a_notes :: "string option"
  a_createdAt :: string
  a_updatedAt :: string

record medication =
  m_name :: string
  m_dosage :: string
  m_frequency :: string

record healthRecordData =
  h_dogId :: string
  h_type :: healthType
  h_date :: string
  h_veterinarian :: string
  h_clinic :: string
  h_description :: string
  h_medications :: "medication list option"
  h_cost :: "rat option"
  h_followUpDate :: "string option"
  h_notes :: "string option"
  h_attachments :: "string list option"

record healthRecord = healthRecordData +
  h_id :: string
  h_createdAt :: string
  h_updatedAt :: string

record trainingRecordData =
  t_dogId :: string
  t_type :: trainingType
  t_trainer :: string
  t_facility :: "string option"
  t_startDate :: string
  t_endDate :: "string option"
  t_status :: trainingStatus
  t_skills :: "string list"
  t_progress :: progress
  t_cost :: "rat option"
  t_notes :: "string option"
  t_certificates :: "string list option"

record trainingRecord = trainingRecordData +
  t_id :: string
  t_createdAt :: string
  t_updatedAt :: string

text \<open>
  The error body \<open>{ error: 'NOT_FOUND', message }\<close> that the handlers return with status 404.
  It is a returned value, never an exception.
\<close>

datatype apiError = NOT_FOUND string


section \<open>JavaScript built-ins used by the handlers\<close>

text \<open>
  \<open>String.prototype.toLowerCase\<close> on the ASCII letters (a character is a byte here; the
  letters \<open>A\<close>..\<open>Z\<close> have codes 65..90 and their lower-case forms differ in bit 5 only).
\<close>

definition toLowerCaseChar :: "char \<Rightarrow> char" where
  "toLowerCaseChar c =
     (case c of Char b0 b1 b2 b3 b4 b5 b6 b7 \<Rightarrow>
        if 65 \<le> (of_char c :: nat) \<and> (of_char c :: nat) \<le> 90
        then Char b0 b1 b2 b3 b4 True b6 b7 else c)"

definition toLowerCase :: "string \<Rightarrow> string" where
  "toLowerCase s = map toLowerCaseChar s"

text \<open>\<open>s.startsWith(p)\<close>, and \<open>s.includes(sub)\<close> as \<open>includesSub\<close>: \<open>sub\<close> occurs in \<open>s\<close> as a contiguous run.\<close>

fun startsWith :: "'a list \<Rightarrow> 'a list \<Rightarrow> bool" where
  "startsWith s [] = True"
| "startsWith [] (p # ps) = False"
| "startsWith (c # cs) (p # ps) = (c = p \<and> startsWith cs ps)"

fun includesSub :: "'a list \<Rightarrow> 'a list \<Rightarrow> bool" where
  "includesSub [] sub = (sub = [])"
| "includesSub (c # cs) sub = (startsWith (c # cs) sub \<or> includesSub cs sub)"

text \<open>
  \<open>Array.prototype.slice(start, end)\<close> for integer arguments: a negative index counts from
  the end, both indices are clipped to the array, and an empty range gives the empty array.
\<close>

definition slice :: "'a list \<Rightarrow> int \<Rightarrow> int \<Rightarrow> 'a list" where
  "slice xs start end' =
     (let len = int (length xs);
          k = (if start < 0 then max (len + start) 0 else min start len);
          final = (if end' < 0 then max (len + end') 0 else min end' len)
      in take (nat (final - k)) (drop (nat k) xs))"

text \<open>
  \<open>Array.prototype.sort(compareFn)\<close>.  The sort of ECMAScript is stable, and for a
  comparator that is a consistent ordering its result is the one stable sorted arrangement;
  insertion from the right computes it.  \<open>compareFn a b \<le> 0\<close> keeps \<open>a\<close> before \<open>b\<close>.
\<close>

fun insertBy :: "('a \<Rightarrow> 'a \<Rightarrow> int) \<Rightarrow> 'a \<Rightarrow> 'a list \<Rightarrow> 'a list" where
  "insertBy compareFn x [] = [x]"
| "insertBy compareFn x (y # ys) =
     (if compareFn x y \<le> 0 then x # y # ys else y # insertBy compareFn x ys)"



text \<open>The truthiness test \<open>if (query.field)\<close> on an optional string: absent and empty are falsy.\<close>

fun truthy :: "string option \<Rightarrow> bool" where
  "truthy None = False"
| "truthy (Some s) = (s \<noteq> [])"

section \<open>src/data/mockData.ts: helpers\<close>

text \<open>
  \<open>findById\<close> is generic in \<open>T extends { id: string }\<close>; the model passes the field
  selector.  \<open>generateId\<close> (a random UUID) and \<open>generateTimestamps\<close> (the clock) read the
  environment: the handlers below take the fresh id and the current time as arguments.
\<close>

definition findById :: "('a \<Rightarrow> string) \<Rightarrow> 'a list \<Rightarrow> string \<Rightarrow> 'a option" where
  "findById idOf data' i = find (\<lambda>item. idOf item = i) data'"

text \<open>\<open>findIndex\<close>: the first position whose element satisfies the test, \<open>None\<close> for -1.\<close>

fun findIndex :: "('a \<Rightarrow> bool) \<Rightarrow> 'a list \<Rightarrow> nat option" where
  "findIndex P [] = None"
| "findIndex P (x # xs) =
     (if P x then Some 0 else (case findIndex P xs of None \<Rightarrow> None | Some k \<Rightarrow> Some (Suc k)))"

section \<open>Pagination block of the list handlers\<close>

text \<open>
  Every list handler ends with the same lines:
  \<^verbatim>\<open>
  const startIndex = (page - 1) * limit
  const endIndex = startIndex + limit
  const paginated = filtered.slice(startIndex, endIndex)
  return c.json({ data: paginated,
    pagination: { page, limit, total: filtered.length,
                  totalPages: Math.ceil(filtered.length / limit) } })
  \<close>
  The quotient \<open>filtered.length / limit\<close> is a double.  For an array length (below \<open>2^32\<close>)
  and \<open>1 \<le> limit \<le> 100\<close> the correctly rounded quotient has the same ceiling as the
  exact one (a quotient that is not an integer lies at least \<open>1/100\<close> from the next integer),
  so the model takes the ceiling of the exact rational.
\<close>

record pagination =
  pg_page :: int
  pg_limit :: int
  pg_total :: int
  pg_totalPages :: int

record 'a paginatedResponse =
  pr_data :: "'a list"
  pr_pagination :: pagination

definition paginate :: "int \<Rightarrow> int \<Rightarrow> 'a list \<Rightarrow> 'a paginatedResponse" where
  "paginate page limit filtered =
     (let startIndex = (page - 1) * limit;
          endIndex = startIndex + limit;
          paginated = slice filtered startIndex endIndex
      in \<lparr> pr_data = paginated,
           pr_pagination = \<lparr> pg_page = page, pg_limit = limit,
             pg_total = int (length filtered),
             pg_totalPages = \<lceil>(of_nat (length filtered) :: rat) / of_int limit\<rceil> \<rparr> \<rparr>)"


section \<open>src/routes/dogs.ts\<close>

text \<open>
  The module keeps its own store, \<open>let dogs = [...mockDogs]\<close>: a copy of the seed array made
  when the module is loaded.  The handlers of this module read and change \<open>dogs\<close>; the seed
  array \<open>mockDogs\<close> itself is never changed by any module.  A handler that changes a store
  returns the new store beside its response.
\<close>

record dogQuery =
  dq_breed :: "string option"
  dq_age_min :: "int option"
  dq_age_max :: "int option"
  dq_weight_min :: "rat option"
  dq_weight_max :: "rat option"
  dq_gender :: "gender option"
  dq_size :: "dogSize option"
  dq_isNeutered :: "bool option"
  dq_page :: int
  dq_limit :: int

text \<open>The filter chain of \<open>listDogsRoute\<close>: one conditional \<open>filter\<close> after the other.\<close>

definition filterDogs :: "dogQuery \<Rightarrow> dog list \<Rightarrow> dog list" where
  "filterDogs query dogs =
     (let filteredDogs = dogs;
          filteredDogs = (if truthy (dq_breed query)
            then filter (\<lambda>dog. includesSub (toLowerCase (d_breed dog))
                                (toLowerCase (case dq_breed query of Some b \<Rightarrow> b | None \<Rightarrow> [])))
                   filteredDogs
            else filteredDogs);
          filteredDogs = (case dq_age_min query of
              Some age_min \<Rightarrow> filter (\<lambda>dog. d_age dog \<ge> age_min) filteredDogs
            | None \<Rightarrow> filteredDogs);
          filteredDogs = (case dq_age_max query of
              Some age_max \<Rightarrow> filter (\<lambda>dog. d_age dog \<le> age_max) filteredDogs
            | None \<Rightarrow> filteredDogs);
          filteredDogs = (case dq_weight_min query of
              Some weight_min \<Rightarrow> filter (\<lambda>dog. d_weight dog \<ge> weight_min) filteredDogs
            | None \<Rightarrow> filteredDogs);
          filteredDogs = (case dq_weight_max query of
              Some weight_max \<Rightarrow> filter (\<lambda>dog. d_weight dog \<le> weight_max) filteredDogs
            | None \<Rightarrow> filteredDogs);
          filteredDogs = (case dq_gender query of
              Some g \<Rightarrow> filter (\<lambda>dog. d_gender dog = g) filteredDogs
            | None \<Rightarrow> filteredDogs);
          filteredDogs = (case dq_size query of
              Some sz \<Rightarrow> filter (\<lambda>dog. d_size dog = sz) filteredDogs
            | None \<Rightarrow> filteredDogs);
          filteredDogs = (case dq_isNeutered query of
              Some n \<Rightarrow> filter (\<lambda>dog. d_isNeutered dog = n) filteredDogs
            | None \<Rightarrow> filteredDogs)
      in filteredDogs)"

definition listDogs :: "dogQuery \<Rightarrow> dog list \<Rightarrow> dog paginatedResponse" where
  "listDogs query dogs = paginate (dq_page query) (dq_limit query) (filterDogs query dogs)"

definition getDog :: "string \<Rightarrow> dog list \<Rightarrow> apiError + dog" where
  "getDog i dogs =
     (case findById d_id dogs i of
        None \<Rightarrow> Inl (NOT_FOUND (''Dog with ID '' @ i @ '' not found''))
      | Some dog \<Rightarrow> Inr dog)"

definition createDog :: "string \<Rightarrow> string \<Rightarrow> dogData \<Rightarrow> dog list \<Rightarrow> dog \<times> dog list" where
  "createDog newId now dogData dogs =
     (let newDog = dogData.extend dogData (dog.fields newId now now)
      in (newDog, dogs @ [newDog]))"

definition deleteDog :: "string \<Rightarrow> dog list \<Rightarrow> (apiError + unit) \<times> dog list" where
  "deleteDog i dogs =
     (case findIndex (\<lambda>dog. d_id dog = i) dogs of
        None \<Rightarrow> (Inl (NOT_FOUND (''Dog with ID '' @ i @ '' not found'')), dogs)
      | Some dogIndex \<Rightarrow> (Inr (), take dogIndex dogs @ drop (Suc dogIndex) dogs))"

section \<open>src/routes/adoption.ts\<close>

text \<open>
  The module's store is \<open>adoptionApplications\<close>.  For dogs it reads \<open>mockDogs\<close>, the seed
  array imported from \<open>data/mockData\<close>, which it receives here as an argument.
\<close>

record applicationQuery =
  aq_status :: "applicationStatus option"
  aq_dogId :: "string option"
  aq_page :: int
  aq_limit :: int

definition filterApplications ::
  "applicationQuery \<Rightarrow> adoptionApplication list \<Rightarrow> adoptionApplication list" where
  "filterApplications query adoptionApplications =
     (let filteredApplications = adoptionApplications;
          filteredApplications = (case aq_status query of
              Some st \<Rightarrow> filter (\<lambda>app. a_status app = st) filteredApplications
            | None \<Rightarrow> filteredApplications);
          filteredApplications = (if truthy (aq_dogId query)
            then filter (\<lambda>app. Some (a_dogId app) = aq_dogId query) filteredApplications
            else filteredApplications)
      in filteredApplications)"

definition listAdoptionApplications ::
  "applicationQuery \<Rightarrow> adoptionApplication list \<Rightarrow> adoptionApplication paginatedResponse" where
  "listAdoptionApplications query adoptionApplications =
     paginate (aq_page query) (aq_limit query) (filterApplications query adoptionApplications)"

definition createAdoptionApplication ::
  "dog list \<Rightarrow> string \<Rightarrow> string \<Rightarrow> adoptionApplicationData \<Rightarrow> adoptionApplication list
     \<Rightarrow> (apiError + adoptionApplication) \<times> adoptionApplication list" where
  "createAdoptionApplication mockDogs newId now applicationData adoptionApplications =
     (case findById d_id mockDogs (a_dogId applicationData) of
        None \<Rightarrow>
          (Inl (NOT_FOUND (''Dog with ID '' @ a_dogId applicationData @ '' not found'')),
           adoptionApplications)
      | Some dog \<Rightarrow>
          (let newApplication = adoptionApplicationData.extend applicationData
                 (adoptionApplication.fields newId Pending None now now)
           in (Inr newApplication, adoptionApplications @ [newApplication])))"

record availableQuery =
  vq_breed :: "string option"
  vq_size :: "dogSize option"
  vq_age_max :: "int option"
  vq_goodWithKids :: "bool option"

definition getAvailableDogs ::
  "availableQuery \<Rightarrow> dog list \<Rightarrow> adoptionApplication list \<Rightarrow> dog list" where
  "getAvailableDogs query mockDogs adoptionApplications =
     (let approvedDogIds =
            map a_dogId (filter (\<lambda>app. a_status app = Approved) adoptionApplications);
          availableDogs = filter (\<lambda>dog. d_id dog \<notin> set approvedDogIds) mockDogs;
          availableDogs = (if truthy (vq_breed query)
            then filter (\<lambda>dog. includesSub (toLowerCase (d_breed dog))
                                (toLowerCase (case vq_breed query of Some b \<Rightarrow> b | None \<Rightarrow> [])))
                   availableDogs
            else availableDogs);
          availableDogs = (case vq_size query of
              Some sz \<Rightarrow> filter (\<lambda>dog. d_size dog = sz) availableDogs
            | None \<Rightarrow> availableDogs);
          availableDogs = (case vq_age_max query of
              Some age_max \<Rightarrow> filter (\<lambda>dog. d_age dog \<le> age_max) availableDogs
            | None \<Rightarrow> availableDogs)
      in availableDogs)"





section \<open>The \<open>Date\<close> built-in (ECMA-262, Date objects)\<close>

text \<open>
  A time value is a number of milliseconds since the epoch, in UTC.  The functions below are
  the abstract operations of the standard with its names.  \<open>YearFromTime\<close> is specified there
  as the largest year whose first instant is not after the time value; it is computed here
  from the mean length of a Gregorian year (146097 days in 400 years), which is off by at
  most one year, and then adjusted (lemma \<open>YearFromTime_spec\<close> below proves the
  specification).  Local time is UTC plus an offset \<open>localTZA\<close>, which the model takes as a
  fixed number of milliseconds.
\<close>

definition msPerDay :: int where
  "msPerDay = 86400000"

definition Day :: "int \<Rightarrow> int" where
  "Day t = t div msPerDay"


definition DaysInYear :: "int \<Rightarrow> int" where
  "DaysInYear y =
     (if y mod 4 \<noteq> 0 then 365 else if y mod 100 \<noteq> 0 then 366
      else if y mod 400 \<noteq> 0 then 365 else 366)"

definition DayFromYear :: "int \<Rightarrow> int" where
  "DayFromYear y =
     365 * (y - 1970) + (y - 1969) div 4 - (y - 1901) div 100 + (y - 1601) div 400"

definition YearFromTime :: "int \<Rightarrow> int" where
  "YearFromTime t =
     (let d = Day t; e = 1970 + (400 * d) div 146097
      in if DayFromYear (e + 1) \<le> d then e + 1 else if DayFromYear e \<le> d then e else e - 1)"


definition DayWithinYear :: "int \<Rightarrow> int" where
  "DayWithinYear t = Day t - DayFromYear (YearFromTime t)"















section \<open>src/routes/health.ts\<close>

text \<open>
  The module's store is \<open>healthRecords\<close>; for dogs it reads the seed array \<open>mockDogs\<close>.
  The date bounds of the list handler compare the date strings themselves
  (\<open>record.date >= query.dateFrom\<close>), which is the lexicographic order on the characters.
\<close>

record healthQuery =
  hq_dogId :: "string option"
  hq_type :: "healthType option"
  hq_veterinarian :: "string option"
  hq_dateFrom :: "string option"
  hq_dateTo :: "string option"
  hq_page :: int
  hq_limit :: int

definition filterHealthRecords :: "healthQuery \<Rightarrow> healthRecord list \<Rightarrow> healthRecord list" where
  "filterHealthRecords query healthRecords =
     (let filteredRecords = healthRecords;
          filteredRecords = (if truthy (hq_dogId query)
            then filter (\<lambda>record. Some (h_dogId record) = hq_dogId query) filteredRecords
            else filteredRecords);
          filteredRecords = (case hq_type query of
              Some ty \<Rightarrow> filter (\<lambda>record. h_type record = ty) filteredRecords
            | None \<Rightarrow> filteredRecords);
          filteredRecords = (if truthy (hq_veterinarian query)
            then filter (\<lambda>record. includesSub (toLowerCase (h_veterinarian record))
                      (toLowerCase (case hq_veterinarian query of Some v \<Rightarrow> v | None \<Rightarrow> [])))
                   filteredRecords
            else filteredRecords);
          filteredRecords = (if truthy (hq_dateFrom query)
            then filter (\<lambda>record. h_date record \<ge>
                      (case hq_dateFrom query of Some d \<Rightarrow> d | None \<Rightarrow> [])) filteredRecords
            else filteredRecords);
          filteredRecords = (if truthy (hq_dateTo query)
            then filter (\<lambda>record. h_date record \<le>
                      (case hq_dateTo query of Some d \<Rightarrow> d | None \<Rightarrow> [])) filteredRecords
            else filteredRecords)
      in filteredRecords)"

definition listHealthRecords ::
  "healthQuery \<Rightarrow> healthRecord list \<Rightarrow> healthRecord paginatedResponse" where
  "listHealthRecords query healthRecords =
     paginate (hq_page query) (hq_limit query) (filterHealthRecords query healthRecords)"

definition createHealthRecord ::
  "dog list \<Rightarrow> string \<Rightarrow> string \<Rightarrow> healthRecordData \<Rightarrow> healthRecord list
     \<Rightarrow> (apiError + healthRecord) \<times> healthRecord list" where
  "createHealthRecord mockDogs newId now recordData healthRecords =
     (case findById d_id mockDogs (h_dogId recordData) of
        None \<Rightarrow>
          (Inl (NOT_FOUND (''Dog with ID '' @ h_dogId recordData @ '' not found'')),
           healthRecords)
      | Some dog \<Rightarrow>
          (let newRecord = healthRecordData.extend recordData (healthRecord.fields newId now now)
           in (Inr newRecord, healthRecords @ [newRecord])))"



subsection \<open>The response body and the declared response schema\<close>

text \<open>
  \<open>c.json(value)\<close> sends \<open>JSON.stringify(value)\<close>, which leaves out every property whose
  value is \<open>undefined\<close>.  The handlers are not checked against their response schema at run
  time; the schema is what the OpenAPI document promises.
\<close>

datatype json =
  JNull | JBool bool | JNumber rat | JString string | JArray "json list"
  | JObject "(string \<times> json) list"








section \<open>src/routes/training.ts\<close>

text \<open>
  The module's store is \<open>trainingRecords\<close>; for dogs it reads the seed array \<open>mockDogs\<close>.
\<close>

record trainingQuery =
  tq_dogId :: "string option"
  tq_type :: "trainingType option"
  tq_trainer :: "string option"
  tq_status :: "trainingStatus option"
  tq_progress :: "progress option"
  tq_page :: int
  tq_limit :: int

definition filterTrainingRecords ::
  "trainingQuery \<Rightarrow> trainingRecord list \<Rightarrow> trainingRecord list" where
  "filterTrainingRecords query trainingRecords =
     (let filteredRecords = trainingRecords;
          filteredRecords = (if truthy (tq_dogId query)
            then filter (\<lambda>record. Some (t_dogId record) = tq_dogId query) filteredRecords
            else filteredRecords);
          filteredRecords = (case tq_type query of
              Some ty \<Rightarrow> filter (\<lambda>record. t_type record = ty) filteredRecords
            | None \<Rightarrow> filteredRecords);
          filteredRecords = (if truthy (tq_trainer query)
            then filter (\<lambda>record. includesSub (toLowerCase (t_trainer record))
                      (toLowerCase (case tq_trainer query of Some v \<Rightarrow> v | None \<Rightarrow> [])))
                   filteredRecords
            else filteredRecords);
          filteredRecords = (case tq_status query of
              Some st \<Rightarrow> filter (\<lambda>record. t_status record = st) filteredRecords
            | None \<Rightarrow> filteredRecords);
          filteredRecords = (case tq_progress query of
              Some pr \<Rightarrow> filter (\<lambda>record. t_progress record = pr) filteredRecords
            | None \<Rightarrow> filteredRecords)
      in filteredRecords)"

definition listTrainingRecords ::
  "trainingQuery \<Rightarrow> trainingRecord list \<Rightarrow> trainingRecord paginatedResponse" where
  "listTrainingRecords query trainingRecords =
     paginate (tq_page query) (tq_limit query) (filterTrainingRecords query trainingRecords)"

definition createTrainingRecord ::
  "dog list \<Rightarrow> string \<Rightarrow> string \<Rightarrow> trainingRecordData \<Rightarrow> trainingRecord list
     \<Rightarrow> (apiError + trainingRecord) \<times> trainingRecord list" where
  "createTrainingRecord mockDogs newId now recordData trainingRecords =
     (case findById d_id mockDogs (t_dogId recordData) of
        None \<Rightarrow>
          (Inl (NOT_FOUND (''Dog with ID '' @ t_dogId recordData @ '' not found'')),
           trainingRecords)
      | Some dog \<Rightarrow>
          (let newRecord =
                 trainingRecordData.extend recordData (trainingRecord.fields newId now now)
           in (Inr newRecord, trainingRecords @ [newRecord])))"













section \<open>Notions of the specification\<close>

text \<open>
  The definitions of this section are not code of the repository.  They say, in the
  specification's own terms, what the handlers above are compared with.
\<close>

subsection \<open>Paginator (spec 4.3 and 8)\<close>

text \<open>\<open>clamp(x, lo, hi)\<close>: \<open>x\<close> raised to at least \<open>lo\<close> and then lowered to at most \<open>hi\<close>.\<close>

definition clamp :: "int \<Rightarrow> int \<Rightarrow> int \<Rightarrow> int" where
  "clamp x lo hi = min hi (max lo x)"

text \<open>
  The window law for a filtered sequence \<open>records\<close> and a response: the items are the slice
  from \<open>(page - 1) * limit\<close> of length \<open>limit\<close>, clipped to the sequence (empty exactly when
  the page starts at or beyond the end); their number is the clamp of the specification;
  the descriptor repeats \<open>page\<close> and \<open>limit\<close>, \<open>total\<close> is the length before windowing and
  \<open>totalPages\<close> is the ceiling of \<open>total / limit\<close>, the least number of pages of \<open>limit\<close> items
  that hold \<open>total\<close> items, which is 0 for an empty sequence.
\<close>

definition windowLaw :: "int \<Rightarrow> int \<Rightarrow> 'a list \<Rightarrow> 'a paginatedResponse \<Rightarrow> bool" where
  "windowLaw page limit records resp =
     (let N = int (length records); items = pr_data resp; descriptor = pr_pagination resp
      in items = take (nat limit) (drop (nat ((page - 1) * limit)) records)
         \<and> (if (page - 1) * limit \<ge> N then items = [] else items \<noteq> [])
         \<and> int (length items) = clamp limit 0 (max 0 (N - (page - 1) * limit))
         \<and> pg_page descriptor = page \<and> pg_limit descriptor = limit
         \<and> pg_total descriptor = N
         \<and> pg_totalPages descriptor = \<lceil>(of_int N :: rat) / of_int limit\<rceil>
         \<and> (pg_totalPages descriptor - 1) * limit < N \<and> N \<le> pg_totalPages descriptor * limit
         \<and> (if N = 0 then pg_totalPages descriptor = 0 else pg_totalPages descriptor \<ge> 1))"

subsection \<open>Predicate filter (spec 4.2)\<close>

text \<open>
  One record satisfies the criteria of a query when it satisfies every supplied matcher:
  exact equality, case-insensitive substring containment, inclusive numeric bounds and
  inclusive date bounds.  An absent criterion is no constraint; for a string criterion the
  handlers test \<open>if (query.x)\<close>, so the empty string counts as absent as well.
\<close>

definition dogMatches :: "dogQuery \<Rightarrow> dog \<Rightarrow> bool" where
  "dogMatches q dog =
     ((case dq_breed q of None \<Rightarrow> True
        | Some b \<Rightarrow> b = [] \<or> includesSub (toLowerCase (d_breed dog)) (toLowerCase b))
      \<and> (case dq_age_min q of None \<Rightarrow> True | Some lo \<Rightarrow> lo \<le> d_age dog)
      \<and> (case dq_age_max q of None \<Rightarrow> True | Some hi \<Rightarrow> d_age dog \<le> hi)
      \<and> (case dq_weight_min q of None \<Rightarrow> True | Some lo \<Rightarrow> lo \<le> d_weight dog)
      \<and> (case dq_weight_max q of None \<Rightarrow> True | Some hi \<Rightarrow> d_weight dog \<le> hi)
      \<and> (case dq_gender q of None \<Rightarrow> True | Some g \<Rightarrow> d_gender dog = g)
      \<and> (case dq_size q of None \<Rightarrow> True | Some sz \<Rightarrow> d_size dog = sz)
      \<and> (case dq_isNeutered q of None \<Rightarrow> True | Some n \<Rightarrow> d_isNeutered dog = n))"

definition healthMatches :: "healthQuery \<Rightarrow> healthRecord \<Rightarrow> bool" where
  "healthMatches q record =
     ((case hq_dogId q of None \<Rightarrow> True | Some i \<Rightarrow> i = [] \<or> h_dogId record = i)
      \<and> (case hq_type q of None \<Rightarrow> True | Some ty \<Rightarrow> h_type record = ty)
      \<and> (case hq_veterinarian q of None \<Rightarrow> True
          | Some v \<Rightarrow> v = [] \<or> includesSub (toLowerCase (h_veterinarian record)) (toLowerCase v))
      \<and> (case hq_dateFrom q of None \<Rightarrow> True | Some d \<Rightarrow> d = [] \<or> d \<le> h_date record)
      \<and> (case hq_dateTo q of None \<Rightarrow> True | Some d \<Rightarrow> d = [] \<or> h_date record \<le> d))"

text \<open>
  The conjunction of two sets of criteria as one query: each criterion is taken from the
  query that supplies it.  The two sets are disjoint when no criterion is supplied by both.
  (\<open>page\<close> and \<open>limit\<close> are no criteria; the first query's are kept.)
\<close>

definition orElse :: "'a option \<Rightarrow> 'a option \<Rightarrow> 'a option" where
  "orElse a b = (case a of None \<Rightarrow> b | Some x \<Rightarrow> Some x)"

definition bothDogCriteria :: "dogQuery \<Rightarrow> dogQuery \<Rightarrow> dogQuery" where
  "bothDogCriteria qA qB =
     \<lparr> dq_breed = orElse (dq_breed qA) (dq_breed qB),
       dq_age_min = orElse (dq_age_min qA) (dq_age_min qB),
       dq_age_max = orElse (dq_age_max qA) (dq_age_max qB),
       dq_weight_min = orElse (dq_weight_min qA) (dq_weight_min qB),
       dq_weight_max = orElse (dq_weight_max qA) (dq_weight_max qB),
       dq_gender = orElse (dq_gender qA) (dq_gender qB),
       dq_size = orElse (dq_size qA) (dq_size qB),
       dq_isNeutered = orElse (dq_isNeutered qA) (dq_isNeutered qB),
       dq_page = dq_page qA, dq_limit = dq_limit qA \<rparr>"

definition disjointDogCriteria :: "dogQuery \<Rightarrow> dogQuery \<Rightarrow> bool" where
  "disjointDogCriteria qA qB =
     ((dq_breed qA = None \<or> dq_breed qB = None)
      \<and> (dq_age_min qA = None \<or> dq_age_min qB = None)
      \<and> (dq_age_max qA = None \<or> dq_age_max qB = None)
      \<and> (dq_weight_min qA = None \<or> dq_weight_min qB = None)
      \<and> (dq_weight_max qA = None \<or> dq_weight_max qB = None)
      \<and> (dq_gender qA = None \<or> dq_gender qB = None)
      \<and> (dq_size qA = None \<or> dq_size qB = None)
      \<and> (dq_isNeutered qA = None \<or> dq_isNeutered qB = None))"

definition bothHealthCriteria :: "healthQuery \<Rightarrow> healthQuery \<Rightarrow> healthQuery" where
  "bothHealthCriteria qA qB =
     \<lparr> hq_dogId = orElse (hq_dogId qA) (hq_dogId qB),
       hq_type = orElse (hq_type qA) (hq_type qB),
       hq_veterinarian = orElse (hq_veterinarian qA) (hq_veterinarian qB),
       hq_dateFrom = orElse (hq_dateFrom qA) (hq_dateFrom qB),
       hq_dateTo = orElse (hq_dateTo qA) (hq_dateTo qB),
       hq_page = hq_page qA, hq_limit = hq_limit qA \<rparr>"

definition disjointHealthCriteria :: "healthQuery \<Rightarrow> healthQuery \<Rightarrow> bool" where
  "disjointHealthCriteria qA qB =
     ((hq_dogId qA = None \<or> hq_dogId qB = None)
      \<and> (hq_type qA = None \<or> hq_type qB = None)
      \<and> (hq_veterinarian qA = None \<or> hq_veterinarian qB = None)
      \<and> (hq_dateFrom qA = None \<or> hq_dateFrom qB = None)
      \<and> (hq_dateTo qA = None \<or> hq_dateTo qB = None))"

text \<open>The queries that supply no criterion, with the schema's defaults for page and limit.\<close>

definition noDogCriteria :: dogQuery where
  "noDogCriteria = \<lparr> dq_breed = None, dq_age_min = None, dq_age_max = None,
     dq_weight_min = None, dq_weight_max = None, dq_gender = None, dq_size = None,
     dq_isNeutered = None, dq_page = 1, dq_limit = 10 \<rparr>"

definition noHealthCriteria :: healthQuery where
  "noHealthCriteria = \<lparr> hq_dogId = None, hq_type = None, hq_veterinarian = None,
     hq_dateFrom = None, hq_dateTo = None, hq_page = 1, hq_limit = 10 \<rparr>"

text \<open>
  The criteria that \<open>/adoption/available\<close> applies to a dog that has no approved
  application: breed, size and the upper bound on the age.
\<close>

definition availableMatches :: "availableQuery \<Rightarrow> dog \<Rightarrow> bool" where
  "availableMatches q dog =
     ((case vq_breed q of None \<Rightarrow> True
        | Some b \<Rightarrow> b = [] \<or> includesSub (toLowerCase (d_breed dog)) (toLowerCase b))
      \<and> (case vq_size q of None \<Rightarrow> True | Some sz \<Rightarrow> d_size dog = sz)
      \<and> (case vq_age_max q of None \<Rightarrow> True | Some hi \<Rightarrow> d_age dog \<le> hi))"


subsection \<open>Aggregator: trainer directory (spec 4.4)\<close>




subsection \<open>Vaccination status (spec 4.4)\<close>



section \<open>Sample data\<close>

text \<open>
  Concrete values in the shape of the seed data of \<open>src/data/mockData.ts\<close>, used as inputs
  where a statement is evaluated.  The seed draws its identifiers and dates at random; the
  values here are fixed.
\<close>

definition buddy :: dog where
  "buddy = \<lparr> d_name = ''Buddy'', d_breed = ''Golden Retriever'', d_age = 3, d_weight = 65,
     d_gender = Male, d_color = ''Golden'', d_size = Large,
     d_temperament = [''friendly'', ''energetic'', ''loyal''], d_isNeutered = True,
     d_microchipId = Some ''123456789012345'',
     d_photos = [''https://example.com/photos/buddy1.jpg'',
                 ''https://example.com/photos/buddy2.jpg''],
     d_description = ''Buddy is a lovable Golden Retriever who loves playing fetch.'',
     d_id = ''d0000000-0000-4000-8000-000000000001'',
     d_createdAt = ''2023-06-01T08:00:00.000Z'', d_updatedAt = ''2023-06-01T08:00:00.000Z'' \<rparr>"

definition luna :: dog where
  "luna = \<lparr> d_name = ''Luna'', d_breed = ''Border Collie'', d_age = 2, d_weight = 45,
     d_gender = Female, d_color = ''Black and White'', d_size = Medium,
     d_temperament = [''intelligent'', ''active'', ''responsive''], d_isNeutered = True,
     d_microchipId = Some ''987654321098765'',
     d_photos = [''https://example.com/photos/luna1.jpg''],
     d_description = ''Luna is a brilliant Border Collie who excels at agility training.'',
     d_id = ''d0000000-0000-4000-8000-000000000002'',
     d_createdAt = ''2023-06-02T08:00:00.000Z'', d_updatedAt = ''2023-06-02T08:00:00.000Z'' \<rparr>"

definition maxDog :: dog where
  "maxDog = \<lparr> d_name = ''Max'', d_breed = ''German Shepherd'', d_age = 5, d_weight = 75,
     d_gender = Male, d_color = ''Brown and Black'', d_size = Large,
     d_temperament = [''protective'', ''confident'', ''courageous''], d_isNeutered = True,
     d_microchipId = None,
     d_photos = [''https://example.com/photos/max1.jpg''],
     d_description = ''Max is a noble German Shepherd with excellent training.'',
     d_id = ''d0000000-0000-4000-8000-000000000003'',
     d_createdAt = ''2023-06-03T08:00:00.000Z'', d_updatedAt = ''2023-06-03T08:00:00.000Z'' \<rparr>"

definition bella :: dog where
  "bella = \<lparr> d_name = ''Bella'', d_breed = ''French Bulldog'', d_age = 1, d_weight = 22,
     d_gender = Female, d_color = ''Cream'', d_size = Small,
     d_temperament = [''adaptable'', ''playful'', ''alert''], d_isNeutered = False,
     d_microchipId = None,
     d_photos = [''https://example.com/photos/bella1.jpg''],
     d_description = ''Bella is a charming French Bulldog puppy.'',
     d_id = ''d0000000-0000-4000-8000-000000000004'',
     d_createdAt = ''2023-06-04T08:00:00.000Z'', d_updatedAt = ''2023-06-04T08:00:00.000Z'' \<rparr>"

definition seedDogs :: "dog list" where
  "seedDogs = [buddy, luna, maxDog, bella]"

text \<open>The payload of a \<open>POST /dogs\<close> request and the id and time the handler draws for it.\<close>

definition rexData :: dogData where
  "rexData = \<lparr> d_name = ''Rex'', d_breed = ''Beagle'', d_age = 4, d_weight = 24,
     d_gender = Male, d_color = ''Tricolor'', d_size = Medium,
     d_temperament = [''curious''], d_isNeutered = True, d_microchipId = None,
     d_photos = [], d_description = ''Rex was registered through the API.'' \<rparr>"

definition rexId :: string where
  "rexId = ''d0000000-0000-4000-8000-000000000009''"

definition healthBase :: healthRecordData where
  "healthBase = \<lparr> h_dogId = d_id buddy, h_type = Vaccination, h_date = ''2023-03-02'',
     h_veterinarian = ''Dr. Emily Chen'', h_clinic = ''Happy Paws Veterinary Clinic'',
     h_description = ''Annual vaccination including rabies, DHPP, and bordetella'',
     h_medications = Some [\<lparr> m_name = ''Rabies Vaccine'', m_dosage = ''1ml'',
                              m_frequency = ''Annual'' \<rparr>],
     h_cost = Some 150, h_followUpDate = Some ''2024-03-02'',
     h_notes = Some ''Dog tolerated vaccines well'', h_attachments = None \<rparr>"

definition vaccinationBuddy :: healthRecord where
  "vaccinationBuddy = healthRecordData.extend healthBase
     (healthRecord.fields ''h0000000-0000-4000-8000-000000000001''
        ''2023-03-02T10:00:00.000Z'' ''2023-03-02T10:00:00.000Z'')"

definition olderVaccinationBuddy :: healthRecord where
  "olderVaccinationBuddy = healthRecordData.extend
     (healthBase\<lparr> h_date := ''2022-02-10'', h_followUpDate := Some ''2023-02-10'' \<rparr>)
     (healthRecord.fields ''h0000000-0000-4000-8000-000000000002''
        ''2022-02-10T10:00:00.000Z'' ''2022-02-10T10:00:00.000Z'')"

definition checkupBuddy :: healthRecord where
  "checkupBuddy = healthRecordData.extend
     (healthBase\<lparr> h_type := Checkup, h_date := ''2023-12-05'',
        h_veterinarian := ''Dr. Michael Rodriguez'',
        h_description := ''Routine wellness examination'', h_medications := None,
        h_cost := Some 85, h_followUpDate := None \<rparr>)
     (healthRecord.fields ''h0000000-0000-4000-8000-000000000003''
        ''2023-12-05T10:00:00.000Z'' ''2023-12-05T10:00:00.000Z'')"

definition treatmentLuna :: healthRecord where
  "treatmentLuna = healthRecordData.extend
     (healthBase\<lparr> h_dogId := d_id luna, h_type := Treatment, h_date := ''2024-01-15'',
        h_veterinarian := ''Dr. Lisa Park'', h_clinic := ''Mountain View Animal Hospital'',
        h_description := ''Treatment for minor ear infection'', h_medications := None,
        h_cost := Some 65, h_followUpDate := None \<rparr>)
     (healthRecord.fields ''h0000000-0000-4000-8000-000000000004''
        ''2024-01-15T10:00:00.000Z'' ''2024-01-15T10:00:00.000Z'')"

definition sampleHealthRecords :: "healthRecord list" where
  "sampleHealthRecords = [olderVaccinationBuddy, checkupBuddy, vaccinationBuddy, treatmentLuna]"

definition trainingBase :: trainingRecordData where
  "trainingBase = \<lparr> t_dogId = d_id buddy, t_type = BasicObedience, t_trainer = ''Mark Thompson'',
     t_facility = Some ''Happy Tails Training Center'', t_startDate = ''2023-09-01'',
     t_endDate = Some ''2023-11-01'', t_status = Completed,
     t_skills = [''sit'', ''stay'', ''down''], t_progress = Excellent, t_cost = Some 300,
     t_notes = None, t_certificates = None \<rparr>"

definition trainingBuddy :: trainingRecord where
  "trainingBuddy = trainingRecordData.extend trainingBase
     (trainingRecord.fields ''t0000000-0000-4000-8000-000000000001''
        ''2023-09-01T10:00:00.000Z'' ''2023-11-01T10:00:00.000Z'')"

definition trainingLunaGood :: trainingRecord where
  "trainingLunaGood = trainingRecordData.extend
     (trainingBase\<lparr> t_dogId := d_id luna, t_type := Agility, t_trainer := ''X'',
        t_facility := None, t_startDate := ''2023-10-01'', t_endDate := None,
        t_status := InProgress, t_skills := [''tunnel'', ''sit''], t_progress := Good \<rparr>)
     (trainingRecord.fields ''t0000000-0000-4000-8000-000000000002''
        ''2023-10-01T10:00:00.000Z'' ''2023-10-01T10:00:00.000Z'')"

definition trainingMaxExcellent :: trainingRecord where
  "trainingMaxExcellent = trainingRecordData.extend
     (trainingBase\<lparr> t_dogId := d_id maxDog, t_type := AdvancedObedience, t_trainer := ''X'',
        t_facility := None, t_startDate := ''2023-05-01'', t_progress := Excellent \<rparr>)
     (trainingRecord.fields ''t0000000-0000-4000-8000-000000000003''
        ''2023-05-01T10:00:00.000Z'' ''2023-07-01T10:00:00.000Z'')"

definition sampleTrainingRecords :: "trainingRecord list" where
  "sampleTrainingRecords = [trainingBuddy, trainingLunaGood, trainingMaxExcellent]"

definition applicationBase :: adoptionApplicationData where
  "applicationBase = \<lparr> a_dogId = d_id buddy, a_applicantName = ''John Smith'',
     a_applicantEmail = ''john.smith@email.com'', a_applicantPhone = ''+1-555-0123'',
     a_address = \<lparr> street = ''123 Main St'', city = ''Springfield'', state = ''IL'',
                   zipCode = ''62701'' \<rparr>,
     a_housingType = House, a_hasYard = True, a_hasOtherPets = False,
     a_otherPetsDetails = None, a_experience = Experienced,
     a_workSchedule = ''9-5 weekdays'',
     a_reason = ''Looking for a loyal family companion for our children.'' \<rparr>"

definition applicationJohn :: adoptionApplication where
  "applicationJohn = adoptionApplicationData.extend applicationBase
     (adoptionApplication.fields ''a0000000-0000-4000-8000-000000000001'' Pending
        (Some ''Strong application'') ''2024-02-01T10:00:00.000Z'' ''2024-02-01T10:00:00.000Z'')"




text \<open>A reading of the clock, as \<open>new Date().toISOString()\<close> prints it.\<close>

definition sampleNow :: string where
  "sampleNow = ''2024-03-01T12:00:00.000Z''"

section \<open>Paginator: the window law\<close>

text \<open>\<open>slice\<close> from a start that is not negative, over a length that is not negative.\<close>

lemma slice_window:
  assumes "0 \<le> s" "0 \<le> l"
  shows "slice xs s (s + l) = take (nat l) (drop (nat s) xs)"
proof (cases "s \<le> int (length xs)")
  case True
  have "min (s + l) (int (length xs)) - s = min l (int (length xs) - s)" by linarith
  moreover have "take (nat (min l (int (length xs) - s))) (drop (nat s) xs)
      = take (nat l) (drop (nat s) xs)"
    using True assms by (simp add: min_def nat_diff_distrib)
  ultimately show ?thesis using True assms by (simp add: slice_def Let_def min_absorb1)
next
  case False
  then show ?thesis using assms by (simp add: slice_def Let_def min_def)
qed

text \<open>The ceiling of \<open>N / limit\<close> as the least number of pages.\<close>

lemma ceiling_pages:
  assumes "1 \<le> limit" "0 \<le> N"
  defines "k \<equiv> \<lceil>(of_int N :: rat) / of_int limit\<rceil>"
  shows "(k - 1) * limit < N" "N \<le> k * limit" "N = 0 \<Longrightarrow> k = 0" "N \<noteq> 0 \<Longrightarrow> 1 \<le> k"
proof -
  have pos: "(0::rat) < of_int limit" using assms by simp
  have "(of_int k - 1) * (of_int limit :: rat) < of_int N"
    unfolding k_def using ceiling_divide_lower[OF pos] by blast
  then have "(of_int ((k - 1) * limit) :: rat) < of_int N" by simp
  then show lo: "(k - 1) * limit < N" by (simp only: of_int_less_iff)
  have "(of_int N :: rat) \<le> of_int k * of_int limit"
    unfolding k_def using ceiling_divide_upper[OF pos] by blast
  then have "(of_int N :: rat) \<le> of_int (k * limit)" by simp
  then show hi: "N \<le> k * limit" by (simp only: of_int_le_iff)
  show "N = 0 \<Longrightarrow> k = 0" unfolding k_def by simp
  show "N \<noteq> 0 \<Longrightarrow> 1 \<le> k"
  proof -
    assume "N \<noteq> 0"
    then have "0 < N" using assms by simp
    then have "0 < k * limit" using hi by linarith
    then have "0 < k" using assms(1) by (simp add: zero_less_mult_iff)
    then show ?thesis by simp
  qed
qed

lemma window_length:
  assumes "0 \<le> s" "0 \<le> l"
  shows "int (length (take (nat l) (drop (nat s) xs))) = clamp l 0 (max 0 (int (length xs) - s))"
  using assms unfolding clamp_def by (simp add: min_def max_def) linarith

lemma window_empty:
  assumes "0 \<le> s" "1 \<le> l"
  shows "(if s \<ge> int (length xs) then take (nat l) (drop (nat s) xs) = []
          else take (nat l) (drop (nat s) xs) \<noteq> [])"
  using assms by (auto simp: nat_le_iff)

lemma paginate_windowLaw:
  assumes "1 \<le> page" "1 \<le> limit"
  shows "windowLaw page limit records (paginate page limit records)"
proof -
  define N where "N = int (length records)"
  define k where "k = \<lceil>(of_int N :: rat) / of_int limit\<rceil>"
  define w where "w = take (nat limit) (drop (nat ((page - 1) * limit)) records)"
  have s: "0 \<le> (page - 1) * limit" using assms by simp
  have l: "0 \<le> limit" using assms by simp
  have N0: "0 \<le> N" by (simp add: N_def)
  have d: "pr_data (paginate page limit records) = w"
    using slice_window[OF s l] by (simp add: paginate_def Let_def w_def)
  have p: "pr_pagination (paginate page limit records)
      = \<lparr> pg_page = page, pg_limit = limit, pg_total = N, pg_totalPages = k \<rparr>"
    by (simp add: paginate_def Let_def N_def k_def)
  have len: "int (length w) = clamp limit 0 (max 0 (N - (page - 1) * limit))"
    unfolding w_def N_def using window_length[OF s l] .
  have e: "(if (page - 1) * limit \<ge> N then w = [] else w \<noteq> [])"
    unfolding w_def N_def using window_empty[OF s assms(2)] .
  have c1: "(k - 1) * limit < N" and c2: "N \<le> k * limit"
    unfolding k_def using ceiling_pages(1,2)[OF assms(2) N0] by blast+
  have c3: "(if N = 0 then k = 0 else k \<ge> 1)"
    unfolding k_def using ceiling_pages(3,4)[OF assms(2) N0] by simp
  show ?thesis
    unfolding windowLaw_def Let_def d p N_def[symmetric] w_def[symmetric]
    using len e c1 c2 c3 k_def by (intro conjI; (assumption | simp only: pagination.simps))
qed

text \<open>
  Claim C1 (pagination window law).  For a page number of at least 1 and a limit between 1
  and 100, each of the four list handlers (dogs, adoption applications, health records,
  training records) returns as items the slice of the filtered sequence that starts at
  \<open>(page - 1) * limit\<close> and has length \<open>limit\<close>, clipped to the sequence: a page beyond the
  end gives the empty list, and the handler returns a response for every input.  The
  descriptor's \<open>total\<close> is the length \<open>N\<close> of the filtered sequence before windowing,
  \<open>totalPages\<close> is the ceiling of \<open>N / limit\<close> (0 when \<open>N = 0\<close>), and the number of items is
  \<open>clamp(limit, 0, max(0, N - (page - 1) * limit))\<close>.  All of this is \<open>windowLaw\<close>.
\<close>

theorem pagination_window_law:
  fixes dq :: dogQuery and aq :: applicationQuery and hq :: healthQuery and tq :: trainingQuery
  assumes "1 \<le> page" and "1 \<le> limit" and "limit \<le> 100"
  defines "dq' \<equiv> dq\<lparr>dq_page := page, dq_limit := limit\<rparr>"
    and "aq' \<equiv> aq\<lparr>aq_page := page, aq_limit := limit\<rparr>"
    and "hq' \<equiv> hq\<lparr>hq_page := page, hq_limit := limit\<rparr>"
    and "tq' \<equiv> tq\<lparr>tq_page := page, tq_limit := limit\<rparr>"
  shows "windowLaw page limit (filterDogs dq' dogs) (listDogs dq' dogs)
       \<and> windowLaw page limit (filterApplications aq' adoptionApplications)
           (listAdoptionApplications aq' adoptionApplications)
       \<and> windowLaw page limit (filterHealthRecords hq' healthRecords)
           (listHealthRecords hq' healthRecords)
       \<and> windowLaw page limit (filterTrainingRecords tq' trainingRecords)
           (listTrainingRecords tq' trainingRecords)"
  unfolding dq'_def aq'_def hq'_def tq'_def
  by (simp add: listDogs_def listAdoptionApplications_def listHealthRecords_def
        listTrainingRecords_def paginate_windowLaw[OF assms(1,2)])

section \<open>Predicate filter: the chain is one filter by the conjunction\<close>

lemma case_filter:
  "(case v of Some x \<Rightarrow> filter (P x) xs | None \<Rightarrow> xs)
     = filter (\<lambda>r. case v of None \<Rightarrow> True | Some x \<Rightarrow> P x r) xs"
  by (cases v) simp_all

lemma truthy_filter:
  "(if truthy v then filter (\<lambda>r. P (case v of Some x \<Rightarrow> x | None \<Rightarrow> []) r) xs else xs)
     = filter (\<lambda>r. case v of None \<Rightarrow> True | Some x \<Rightarrow> x = [] \<or> P x r) xs"
  by (cases v) simp_all

lemma truthy_filter_eq:
  "(if truthy v then filter (\<lambda>r. Some (f r) = v) xs else xs)
     = filter (\<lambda>r. case v of None \<Rightarrow> True | Some x \<Rightarrow> x = [] \<or> f r = x) xs"
  by (cases v) simp_all

lemma filterDogs_conv: "filterDogs q dogs = filter (dogMatches q) dogs"
proof -
  have m: "dogMatches q = (\<lambda>dog. ((((((((case dq_breed q of None \<Rightarrow> True
        | Some b \<Rightarrow> b = [] \<or> includesSub (toLowerCase (d_breed dog)) (toLowerCase b))
      \<and> (case dq_age_min q of None \<Rightarrow> True | Some lo \<Rightarrow> lo \<le> d_age dog))
      \<and> (case dq_age_max q of None \<Rightarrow> True | Some hi \<Rightarrow> d_age dog \<le> hi))
      \<and> (case dq_weight_min q of None \<Rightarrow> True | Some lo \<Rightarrow> lo \<le> d_weight dog))
      \<and> (case dq_weight_max q of None \<Rightarrow> True | Some hi \<Rightarrow> d_weight dog \<le> hi))
      \<and> (case dq_gender q of None \<Rightarrow> True | Some g \<Rightarrow> d_gender dog = g))
      \<and> (case dq_size q of None \<Rightarrow> True | Some sz \<Rightarrow> d_size dog = sz))
      \<and> (case dq_isNeutered q of None \<Rightarrow> True | Some n \<Rightarrow> d_isNeutered dog = n)))"
    unfolding dogMatches_def by (simp only: conj_assoc)
  show ?thesis
    unfolding filterDogs_def Let_def m
    apply (simp only: case_filter
          truthy_filter[where P = "\<lambda>b dog. includesSub (toLowerCase (d_breed dog)) (toLowerCase b)"])
    apply (simp only: filter_filter)
    done
qed

lemma filterHealthRecords_conv: "filterHealthRecords q rs = filter (healthMatches q) rs"
proof -
  have m: "healthMatches q = (\<lambda>record.
     (((((case hq_dogId q of None \<Rightarrow> True | Some i \<Rightarrow> i = [] \<or> h_dogId record = i)
      \<and> (case hq_type q of None \<Rightarrow> True | Some ty \<Rightarrow> h_type record = ty))
      \<and> (case hq_veterinarian q of None \<Rightarrow> True
          | Some v \<Rightarrow> v = [] \<or> includesSub (toLowerCase (h_veterinarian record)) (toLowerCase v)))
      \<and> (case hq_dateFrom q of None \<Rightarrow> True | Some d \<Rightarrow> d = [] \<or> d \<le> h_date record))
      \<and> (case hq_dateTo q of None \<Rightarrow> True | Some d \<Rightarrow> d = [] \<or> h_date record \<le> d)))"
    unfolding healthMatches_def by (simp only: conj_assoc)
  show ?thesis
    unfolding filterHealthRecords_def Let_def m
    apply (simp only: case_filter truthy_filter_eq
          truthy_filter[where P = "\<lambda>v record. includesSub (toLowerCase (h_veterinarian record)) (toLowerCase v)"]
          truthy_filter[where P = "\<lambda>d record. d \<le> h_date record"]
          truthy_filter[where P = "\<lambda>d record. h_date record \<le> d"])
    apply (simp only: filter_filter)
    done
qed

lemma case_orElse:
  "a = None \<or> b = None \<Longrightarrow>
   (case orElse a b of None \<Rightarrow> True | Some v \<Rightarrow> P v)
     = ((case a of None \<Rightarrow> True | Some v \<Rightarrow> P v) \<and> (case b of None \<Rightarrow> True | Some v \<Rightarrow> P v))"
  by (cases a; cases b) (simp_all add: orElse_def)

lemma dogMatches_both:
  assumes "disjointDogCriteria qA qB"
  shows "dogMatches (bothDogCriteria qA qB) dog = (dogMatches qA dog \<and> dogMatches qB dog)"
proof -
  note d = assms[unfolded disjointDogCriteria_def]
  show ?thesis
    unfolding dogMatches_def bothDogCriteria_def
    using d by (simp add: case_orElse) blast
qed

lemma healthMatches_both:
  assumes "disjointHealthCriteria qA qB"
  shows "healthMatches (bothHealthCriteria qA qB) r = (healthMatches qA r \<and> healthMatches qB r)"
proof -
  note d = assms[unfolded disjointHealthCriteria_def]
  show ?thesis
    unfolding healthMatches_def bothHealthCriteria_def
    using d by (simp add: case_orElse) blast
qed

lemma filterDogs_noCriteria: "filterDogs noDogCriteria dogs = dogs"
  by (simp add: filterDogs_conv dogMatches_def noDogCriteria_def)

lemma filterHealthRecords_noCriteria: "filterHealthRecords noHealthCriteria rs = rs"
  by (simp add: filterHealthRecords_conv healthMatches_def noHealthCriteria_def)

text \<open>
  The scenario of the specification for C1: 12 filtered records, limit 5, page 3 give 2
  items and 3 pages.
\<close>

theorem pagination_window_law_witness:
  "(1::int) \<le> 3 \<and> (1::int) \<le> 5 \<and> (5::int) \<le> 100
   \<and> filterDogs (noDogCriteria\<lparr>dq_page := 3, dq_limit := 5\<rparr>) (replicate 12 buddy)
       = replicate 12 buddy
   \<and> pr_data (listDogs (noDogCriteria\<lparr>dq_page := 3, dq_limit := 5\<rparr>) (replicate 12 buddy))
       = [buddy, buddy]
   \<and> pr_pagination (listDogs (noDogCriteria\<lparr>dq_page := 3, dq_limit := 5\<rparr>) (replicate 12 buddy))
       = \<lparr> pg_page = 3, pg_limit = 5, pg_total = 12, pg_totalPages = 3 \<rparr>"
proof -
  have h: "(1::int) \<le> 3" "(1::int) \<le> 5" "(5::int) \<le> 100" by simp_all
  have f: "filterDogs (noDogCriteria\<lparr>dq_page := 3, dq_limit := 5\<rparr>) (replicate 12 buddy)
      = replicate 12 buddy"
    by (simp add: filterDogs_conv dogMatches_def noDogCriteria_def)
  have w: "windowLaw 3 5 (replicate 12 buddy)
      (listDogs (noDogCriteria\<lparr>dq_page := 3, dq_limit := 5\<rparr>) (replicate 12 buddy))"
    using pagination_window_law[OF h, of noDogCriteria "replicate 12 buddy"]
    by (simp add: f)
  have d: "pr_data (listDogs (noDogCriteria\<lparr>dq_page := 3, dq_limit := 5\<rparr>) (replicate 12 buddy))
      = [buddy, buddy]"
    using w by (simp add: windowLaw_def Let_def numeral_eq_Suc)
  have p: "pr_pagination (listDogs (noDogCriteria\<lparr>dq_page := 3, dq_limit := 5\<rparr>) (replicate 12 buddy))
      = \<lparr> pg_page = 3, pg_limit = 5, pg_total = 12, pg_totalPages = 3 \<rparr>"
    using w by (simp add: windowLaw_def Let_def pagination.equality)
  show ?thesis using h f d p by simp
qed

text \<open>
  Claim C3 (filter composability and commutativity).  For the filter chains of the dog list
  and of the health record list, whose criteria cover the four matcher kinds (exact
  equality, case-insensitive substring, inclusive numeric range, inclusive date range):
  filtering by the criteria \<open>A\<close> and then by the criteria \<open>B\<close> gives the records, in their
  order, that satisfy both; the result does not depend on the order of the two passes; when
  no criterion is supplied by both, it is the result of the one request that carries the
  criteria of both; and a request without criteria returns the sequence unchanged.
\<close>

theorem filter_composable_commutative:
  "filterDogs qB (filterDogs qA dogs) = filter (\<lambda>dog. dogMatches qA dog \<and> dogMatches qB dog) dogs
   \<and> filterDogs qB (filterDogs qA dogs) = filterDogs qA (filterDogs qB dogs)
   \<and> (disjointDogCriteria qA qB \<longrightarrow>
        filterDogs (bothDogCriteria qA qB) dogs = filterDogs qB (filterDogs qA dogs))
   \<and> filterDogs noDogCriteria dogs = dogs
   \<and> filterHealthRecords hB (filterHealthRecords hA healthRecords)
       = filter (\<lambda>r. healthMatches hA r \<and> healthMatches hB r) healthRecords
   \<and> filterHealthRecords hB (filterHealthRecords hA healthRecords)
       = filterHealthRecords hA (filterHealthRecords hB healthRecords)
   \<and> (disjointHealthCriteria hA hB \<longrightarrow>
        filterHealthRecords (bothHealthCriteria hA hB) healthRecords
          = filterHealthRecords hB (filterHealthRecords hA healthRecords))
   \<and> filterHealthRecords noHealthCriteria healthRecords = healthRecords"
proof -
  have d1: "filterDogs qB (filterDogs qA dogs)
      = filter (\<lambda>dog. dogMatches qA dog \<and> dogMatches qB dog) dogs"
    by (simp only: filterDogs_conv filter_filter)
  have d2: "filterDogs qB (filterDogs qA dogs) = filterDogs qA (filterDogs qB dogs)"
    by (simp only: filterDogs_conv filter_filter conj_commute)
  have d3: "filterDogs (bothDogCriteria qA qB) dogs = filterDogs qB (filterDogs qA dogs)"
    if "disjointDogCriteria qA qB"
  proof -
    have "dogMatches (bothDogCriteria qA qB) = (\<lambda>dog. dogMatches qA dog \<and> dogMatches qB dog)"
      by (rule ext) (rule dogMatches_both[OF that])
    then show ?thesis by (simp only: filterDogs_conv filter_filter)
  qed
  have h1: "filterHealthRecords hB (filterHealthRecords hA healthRecords)
      = filter (\<lambda>r. healthMatches hA r \<and> healthMatches hB r) healthRecords"
    by (simp only: filterHealthRecords_conv filter_filter)
  have h2: "filterHealthRecords hB (filterHealthRecords hA healthRecords)
      = filterHealthRecords hA (filterHealthRecords hB healthRecords)"
    by (simp only: filterHealthRecords_conv filter_filter conj_commute)
  have h3: "filterHealthRecords (bothHealthCriteria hA hB) healthRecords
      = filterHealthRecords hB (filterHealthRecords hA healthRecords)"
    if "disjointHealthCriteria hA hB"
  proof -
    have "healthMatches (bothHealthCriteria hA hB)
        = (\<lambda>r. healthMatches hA r \<and> healthMatches hB r)"
      by (rule ext) (rule healthMatches_both[OF that])
    then show ?thesis by (simp only: filterHealthRecords_conv filter_filter)
  qed
  show ?thesis
    using d1 d2 d3 h1 h2 h3 filterDogs_noCriteria filterHealthRecords_noCriteria by blast
qed

text \<open>
  Claim C4 (filter stability and idempotence).  The filter chain returns exactly the
  records that satisfy the criteria, in the order in which they stand in the input (it is
  the \<open>filter\<close> of the input by the conjunction, hence a subsequence of it), and applying
  the same criteria to the result returns the result unchanged.
\<close>

theorem filter_stable_idempotent:
  "filterDogs q dogs = filter (dogMatches q) dogs
   \<and> subseq (filterDogs q dogs) dogs
   \<and> filterDogs q (filterDogs q dogs) = filterDogs q dogs
   \<and> filterHealthRecords hq healthRecords = filter (healthMatches hq) healthRecords
   \<and> subseq (filterHealthRecords hq healthRecords) healthRecords
   \<and> filterHealthRecords hq (filterHealthRecords hq healthRecords)
       = filterHealthRecords hq healthRecords"
  by (simp add: filterDogs_conv filterHealthRecords_conv)


text \<open>
  C3 at concrete criteria.  The first line is the scenario of the specification: of the
  dogs Buddy (age 3) and Max (age 5), the criterion \<open>age_min = 4\<close> keeps Max only.  The health
  criteria are a date bound and a veterinarian given in capitals.
\<close>

theorem filter_composable_commutative_witness:
  "disjointDogCriteria (noDogCriteria\<lparr>dq_age_min := Some 4\<rparr>) (noDogCriteria\<lparr>dq_size := Some Large\<rparr>)
   \<and> filterDogs (noDogCriteria\<lparr>dq_age_min := Some 4\<rparr>) [buddy, maxDog] = [maxDog]
   \<and> filterDogs (noDogCriteria\<lparr>dq_size := Some Large\<rparr>)
         (filterDogs (noDogCriteria\<lparr>dq_age_min := Some 4\<rparr>) seedDogs) = [maxDog]
   \<and> filterDogs (bothDogCriteria (noDogCriteria\<lparr>dq_age_min := Some 4\<rparr>)
                    (noDogCriteria\<lparr>dq_size := Some Large\<rparr>)) seedDogs = [maxDog]
   \<and> disjointHealthCriteria (noHealthCriteria\<lparr>hq_dateFrom := Some ''2023-01-01''\<rparr>)
         (noHealthCriteria\<lparr>hq_veterinarian := Some ''CHEN''\<rparr>)
   \<and> filterHealthRecords (bothHealthCriteria (noHealthCriteria\<lparr>hq_dateFrom := Some ''2023-01-01''\<rparr>)
         (noHealthCriteria\<lparr>hq_veterinarian := Some ''CHEN''\<rparr>)) sampleHealthRecords
       = [vaccinationBuddy]"
proof -
  let ?qA = "noDogCriteria\<lparr>dq_age_min := Some 4\<rparr>"
  let ?qB = "noDogCriteria\<lparr>dq_size := Some Large\<rparr>"
  let ?hA = "noHealthCriteria\<lparr>hq_dateFrom := Some ''2023-01-01''\<rparr>"
  let ?hB = "noHealthCriteria\<lparr>hq_veterinarian := Some ''CHEN''\<rparr>"
  note t = filter_composable_commutative[of ?qB ?qA seedDogs ?hB ?hA sampleHealthRecords]
  have dj: "disjointDogCriteria ?qA ?qB"
    by (simp add: disjointDogCriteria_def noDogCriteria_def)
  have hj: "disjointHealthCriteria ?hA ?hB"
    by (simp add: disjointHealthCriteria_def noHealthCriteria_def)
  have a: "filterDogs ?qA [buddy, maxDog] = [maxDog]"
    by (simp add: filterDogs_conv dogMatches_def noDogCriteria_def buddy_def maxDog_def)
  have b: "filter (\<lambda>dog. dogMatches ?qA dog \<and> dogMatches ?qB dog) seedDogs = [maxDog]"
    by (simp add: dogMatches_def noDogCriteria_def seedDogs_def buddy_def maxDog_def
          luna_def bella_def)
  have c: "filter (\<lambda>r. healthMatches ?hA r \<and> healthMatches ?hB r) sampleHealthRecords
      = [vaccinationBuddy]"
    by (simp add: healthMatches_def noHealthCriteria_def sampleHealthRecords_def
          vaccinationBuddy_def olderVaccinationBuddy_def checkupBuddy_def treatmentLuna_def
          healthBase_def healthRecordData.defs healthRecord.defs toLowerCase_def
          toLowerCaseChar_def)
  from t dj hj have e1: "filterDogs ?qB (filterDogs ?qA seedDogs) = [maxDog]"
    and e2: "filterDogs (bothDogCriteria ?qA ?qB) seedDogs = [maxDog]"
    and e3: "filterHealthRecords (bothHealthCriteria ?hA ?hB) sampleHealthRecords
      = [vaccinationBuddy]"
    using b c by simp_all
  show ?thesis using dj hj a e1 e2 e3 by simp
qed

section \<open>Adoption: available dogs\<close>

lemma getAvailableDogs_conv:
  "getAvailableDogs query mockDogs adoptionApplications
     = filter (\<lambda>dog. d_id dog \<notin> set (map a_dogId
                  (filter (\<lambda>app. a_status app = Approved) adoptionApplications))
               \<and> availableMatches query dog) mockDogs"
proof -
  have m: "availableMatches query = (\<lambda>dog.
      ((case vq_breed query of None \<Rightarrow> True
        | Some b \<Rightarrow> b = [] \<or> includesSub (toLowerCase (d_breed dog)) (toLowerCase b))
      \<and> (case vq_size query of None \<Rightarrow> True | Some sz \<Rightarrow> d_size dog = sz))
      \<and> (case vq_age_max query of None \<Rightarrow> True | Some hi \<Rightarrow> d_age dog \<le> hi))"
    unfolding availableMatches_def by (simp only: conj_assoc)
  show ?thesis
    unfolding getAvailableDogs_def Let_def m
    apply (simp only: case_filter
          truthy_filter[where P = "\<lambda>b dog. includesSub (toLowerCase (d_breed dog)) (toLowerCase b)"])
    apply (simp only: filter_filter conj_assoc)
    done
qed

text \<open>
  Claim C9 (implicit).  The response of \<open>/adoption/available\<close> does not depend on the query
  parameter \<open>goodWithKids\<close>, which the query schema declares: two requests that differ
  only in its value or presence get the same list.  The list consists of the seed dogs
  without an approved application that satisfy the criteria on breed, size and \<open>age_max\<close>,
  and of nothing else.
\<close>

theorem available_dogs_ignore_goodWithKids:
  "getAvailableDogs (query\<lparr>vq_goodWithKids := g1\<rparr>) mockDogs adoptionApplications
     = getAvailableDogs (query\<lparr>vq_goodWithKids := g2\<rparr>) mockDogs adoptionApplications
   \<and> getAvailableDogs query mockDogs adoptionApplications
     = filter (\<lambda>dog. d_id dog \<notin> set (map a_dogId
                  (filter (\<lambda>app. a_status app = Approved) adoptionApplications))
               \<and> availableMatches query dog) mockDogs"
proof -
  have "availableMatches (query\<lparr>vq_goodWithKids := g\<rparr>) = availableMatches query" for g
    by (rule ext) (simp add: availableMatches_def)
  then show ?thesis by (simp only: getAvailableDogs_conv simp_thms)
qed


section \<open>Foreign-key guard of the create handlers\<close>

text \<open>
  What the guard does: each of the three create handlers looks the dog up in \<open>mockDogs\<close>,
  the seed array.  The record is appended when the seed holds a dog of that id, and
  \<open>NOT_FOUND\<close> is returned with the collection unchanged when it does not.
\<close>

lemma findById_None_iff: "findById idOf xs i = None \<longleftrightarrow> i \<notin> idOf ` set xs"
  by (auto simp: findById_def find_None_iff)

lemma findById_Some_mem: "findById idOf xs i = Some x \<Longrightarrow> i \<in> idOf ` set xs"
  using findById_None_iff[of idOf xs i] by auto

lemma foreign_key_guard_on_seed:
  "createHealthRecord mockDogs newId now hData healthRecords =
     (if h_dogId hData \<in> d_id ` set mockDogs
      then (Inr (healthRecordData.extend hData (healthRecord.fields newId now now)),
            healthRecords @ [healthRecordData.extend hData (healthRecord.fields newId now now)])
      else (Inl (NOT_FOUND (''Dog with ID '' @ h_dogId hData @ '' not found'')), healthRecords))"
  "createTrainingRecord mockDogs newId now tData trainingRecords =
     (if t_dogId tData \<in> d_id ` set mockDogs
      then (Inr (trainingRecordData.extend tData (trainingRecord.fields newId now now)),
            trainingRecords @ [trainingRecordData.extend tData (trainingRecord.fields newId now now)])
      else (Inl (NOT_FOUND (''Dog with ID '' @ t_dogId tData @ '' not found'')), trainingRecords))"
  "createAdoptionApplication mockDogs newId now aData adoptionApplications =
     (if a_dogId aData \<in> d_id ` set mockDogs
      then (Inr (adoptionApplicationData.extend aData
                  (adoptionApplication.fields newId Pending None now now)),
            adoptionApplications @ [adoptionApplicationData.extend aData
                  (adoptionApplication.fields newId Pending None now now)])
      else (Inl (NOT_FOUND (''Dog with ID '' @ a_dogId aData @ '' not found'')),
            adoptionApplications))"
  by (auto simp: createHealthRecord_def createTrainingRecord_def createAdoptionApplication_def
        Let_def findById_None_iff split: option.splits dest: findById_Some_mem)

text \<open>
  Claim C2 (foreign-key guard).  The claim measures the guard against the Dog collection at
  the time of creation, that is the store \<open>dogs\<close> in which \<open>POST /dogs\<close> registers a dog and
  from which \<open>DELETE /dogs/{id}\<close> removes one.  The guard reads the seed array instead,
  which no handler changes.  The evaluation starts the store and the seed from the same
  sample dogs.  First, the dog Rex is registered through \<open>createDog\<close>: \<open>getDog\<close> returns it
  from the store, yet a health record, a training record and an adoption application for
  it are each refused with \<open>NOT_FOUND\<close>, the collection unchanged.  Second, \<open>deleteDog\<close> removes
  Buddy from the store, so that \<open>getDog\<close> answers \<open>NOT_FOUND\<close>: a health record for Buddy is
  appended all the same.
\<close>

theorem foreign_key_guard_reads_seed_array:
  "(case createDog rexId sampleNow rexData seedDogs of
      (rex, dogs') \<Rightarrow>
        getDog rexId dogs' = Inr rex
        \<and> createHealthRecord seedDogs ''h0000000-0000-4000-8000-000000000009'' sampleNow
              (healthBase\<lparr>h_dogId := rexId\<rparr>) sampleHealthRecords
            = (Inl (NOT_FOUND (''Dog with ID '' @ rexId @ '' not found'')), sampleHealthRecords)
        \<and> createTrainingRecord seedDogs ''t0000000-0000-4000-8000-000000000009'' sampleNow
              (trainingBase\<lparr>t_dogId := rexId\<rparr>) sampleTrainingRecords
            = (Inl (NOT_FOUND (''Dog with ID '' @ rexId @ '' not found'')), sampleTrainingRecords)
        \<and> createAdoptionApplication seedDogs ''a0000000-0000-4000-8000-000000000009'' sampleNow
              (applicationBase\<lparr>a_dogId := rexId\<rparr>) [applicationJohn]
            = (Inl (NOT_FOUND (''Dog with ID '' @ rexId @ '' not found'')), [applicationJohn]))
   \<and> (case deleteDog (d_id buddy) seedDogs of
      (result, dogs') \<Rightarrow>
        result = Inr () \<and> dogs' = [luna, maxDog, bella]
        \<and> getDog (d_id buddy) dogs'
            = Inl (NOT_FOUND (''Dog with ID '' @ d_id buddy @ '' not found''))
        \<and> snd (createHealthRecord seedDogs ''h0000000-0000-4000-8000-000000000009'' sampleNow
                  healthBase sampleHealthRecords)
            = sampleHealthRecords @ [healthRecordData.extend healthBase
                (healthRecord.fields ''h0000000-0000-4000-8000-000000000009'' sampleNow sampleNow)])"
  by (simp add: createDog_def getDog_def deleteDog_def findById_def foreign_key_guard_on_seed
        Let_def seedDogs_def buddy_def luna_def maxDog_def bella_def rexId_def rexData_def
        healthBase_def trainingBase_def applicationBase_def dogData.defs dog.defs)

section \<open>Training progress of a dog without training records\<close>



section \<open>Vaccination history of a dog without vaccinations\<close>




section \<open>Adoption statistics\<close>







section \<open>Aggregator: progress bucketing\<close>





















section \<open>Vaccination status\<close>

subsection \<open>The calendar of the \<open>Date\<close> built-in\<close>

text \<open>
  \<open>DayFromYear\<close> advances by the length of the year, so \<open>YearFromTime\<close> is the year whose
  days contain the time value, and \<open>MakeDay\<close> of the year, month and day of a time value
  is its day number.  Setting the year of an instant to the year before moves it back by
  365 or by 366 days.
\<close>

lemma div_succ:
  fixes x k :: int
  assumes "0 < k"
  shows "(x + 1) div k = x div k + (if (x + 1) mod k = 0 then 1 else 0)"
proof (cases "x mod k = k - 1")
  case True
  have "x + 1 = k * (x div k + 1) + 0"
    using True by (metis add.commute add_diff_cancel_left' add_diff_eq diff_add_cancel distrib_left mult.right_neutral mult_div_mod_eq add_0_right)
  then have "(x + 1) div k = x div k + 1 \<and> (x + 1) mod k = 0"
    using assms by (metis mod_mult_self2_is_0 add.right_neutral less_irrefl mult.commute nonzero_mult_div_cancel_left)
  then show ?thesis by simp
next
  case False
  have r: "0 \<le> x mod k" "x mod k < k" using assms by simp_all
  have "x + 1 = k * (x div k) + (x mod k + 1)" by simp
  moreover have "0 \<le> x mod k + 1" "x mod k + 1 < k" using r False by linarith+
  ultimately have "(x + 1) div k = x div k \<and> (x + 1) mod k = x mod k + 1"
    using int_div_pos_eq int_mod_pos_eq by blast
  then show ?thesis using r by simp
qed

lemma m4: "(y - 1968) mod 4 = y mod (4::int)" by presburger
lemma m100: "(y - 1900) mod 100 = y mod (100::int)"
  using mod_mult_self2[of y 100 "-19"] by simp
lemma m400: "(y - 1600) mod 400 = y mod (400::int)"
  using mod_mult_self2[of y 400 "-4"] by simp
lemma d1: "y mod 400 = 0 \<Longrightarrow> y mod 100 = (0::int)"
proof -
  assume "y mod 400 = 0"
  then have "400 dvd y" by (simp add: dvd_eq_mod_eq_0)
  moreover have "(100::int) dvd 400" by simp
  ultimately have "100 dvd y" by (rule dvd_trans[rotated])
  then show ?thesis by (simp add: dvd_eq_mod_eq_0)
qed
lemma d2: "y mod 100 = 0 \<Longrightarrow> y mod 4 = (0::int)"
  by presburger


lemma div_bounds:
  fixes x k :: int
  assumes "0 < k"
  shows "k * (x div k) \<le> x" "x < k * (x div k) + k"
proof -
  have "x = k * (x div k) + x mod k" by simp
  moreover have "0 \<le> x mod k" "x mod k < k" using assms by simp_all
  ultimately show "k * (x div k) \<le> x" "x < k * (x div k) + k" by linarith+
qed


lemma DayFromYear_step: "DayFromYear (y + 1) = DayFromYear y + DaysInYear y"
proof -
  have a: "(y + 1 - 1969) div 4 = (y - 1969) div 4 + (if y mod 4 = 0 then 1 else 0)"
    using div_succ[of 4 "y - 1969"] m4[of y] by (simp add: algebra_simps)
  have b: "(y + 1 - 1901) div 100 = (y - 1901) div 100 + (if y mod 100 = 0 then 1 else 0)"
    using div_succ[of 100 "y - 1901"] m100[of y] by (simp add: algebra_simps)
  have c: "(y + 1 - 1601) div 400 = (y - 1601) div 400 + (if y mod 400 = 0 then 1 else 0)"
    using div_succ[of 400 "y - 1601"] m400[of y] by (simp add: algebra_simps)
  show ?thesis
    unfolding DayFromYear_def DaysInYear_def a b c using d1[of y] d2[of y] by auto
qed

lemma DayFromYear_bounds:
  "146097 * y - 287811596 \<le> 400 * DayFromYear y"
  "400 * DayFromYear y \<le> 146097 * y - 287810501"
proof -
  define q4 where "q4 = (y - 1969) div 4"
  define q100 where "q100 = (y - 1901) div 100"
  define q400 where "q400 = (y - 1601) div 400"
  have a: "4 * q4 \<le> y - 1969" "y - 1969 < 4 * q4 + 4"
    unfolding q4_def using div_bounds[of 4 "y - 1969"] by simp_all
  have b: "100 * q100 \<le> y - 1901" "y - 1901 < 100 * q100 + 100"
    unfolding q100_def using div_bounds[of 100 "y - 1901"] by simp_all
  have c: "400 * q400 \<le> y - 1601" "y - 1601 < 400 * q400 + 400"
    unfolding q400_def using div_bounds[of 400 "y - 1601"] by simp_all
  have d: "DayFromYear y = 365 * y - 719050 + q4 - q100 + q400"
    by (simp add: DayFromYear_def q4_def q100_def q400_def right_diff_distrib)
  show "146097 * y - 287811596 \<le> 400 * DayFromYear y" using a b c d by linarith
  show "400 * DayFromYear y \<le> 146097 * y - 287810501" using a b c d by linarith
qed

lemma YearFromTime_spec:
  "DayFromYear (YearFromTime t) \<le> Day t \<and> Day t < DayFromYear (YearFromTime t + 1)"
proof -
  define d where "d = Day t"
  define q where "q = (400 * d) div 146097"
  define e where "e = 1970 + q"
  have q: "146097 * q \<le> 400 * d" "400 * d < 146097 * q + 146097"
    unfolding q_def using div_bounds[of 146097 "400 * d"] by simp_all
  define e2 where "e2 = e + 2"
  define e1 where "e1 = e - 1"
  have hi: "d < DayFromYear e2"
    using DayFromYear_bounds(1)[of e2] q e_def e2_def by linarith
  have lo: "DayFromYear e1 \<le> d"
    using DayFromYear_bounds(2)[of e1] q e_def e1_def by linarith
  have y: "YearFromTime t =
      (if DayFromYear (e + 1) \<le> d then e + 1 else if DayFromYear e \<le> d then e else e - 1)"
    by (simp add: YearFromTime_def Let_def d_def q_def e_def)
  have r: "e + 1 + 1 = e2" "e - 1 = e1" "e1 + 1 = e"
    by (simp_all add: e2_def e1_def)
  show ?thesis
    unfolding y d_def[symmetric] using hi lo by (simp add: r)
qed

lemma DayWithinYear_range: "0 \<le> DayWithinYear t \<and> DayWithinYear t < DaysInYear (YearFromTime t)"
  using YearFromTime_spec[of t] DayFromYear_step[of "YearFromTime t"]
  by (simp add: DayWithinYear_def)







subsection \<open>The sort of the vaccination records\<close>

text \<open>
  On records with valid dates the comparator orders by decreasing time value, and the
  insertion sort is then the stable sort by the negated time value.
\<close>

lemma set_insertBy: "set (insertBy c x ys) = insert x (set ys)"
  by (induction ys) auto








subsection \<open>The response of the vaccination history endpoint\<close>




end
